theory Spec2Isabelle
  imports Complex_Main "HOL-Library.Word"
begin

section \<open>Data model (src/src/App.tsx, lines 9-43)\<close>

text \<open>
  The TypeScript object types become records. Field names that clash with constants of
  HOL carry a prefix: \<open>id\<close> and \<open>name\<close> of a broker are \<open>bid\<close> and \<open>bname\<close>, \<open>id\<close> of a
  partition is \<open>pid\<close>, \<open>name\<close> of a topic is \<open>tname\<close>, \<open>id\<close> of a consumer and of a group are
  \<open>cid\<close> and \<open>gid\<close>. A \<open>string | null\<close> is a \<open>string option\<close>, the optional field
  \<open>offline?: boolean\<close> is a \<open>bool option\<close> (\<open>None\<close> when the field is absent), a
  \<open>Record<string, _>\<close> is a map. Numbers that hold counts, indices and offsets are
  integers; where the code adds to an offset, the sum is rounded as a double is.
\<close>

record Broker =
  bid :: string
  bname :: string
  up :: bool

record Partition =
  pid :: int
  topic :: string
  leader :: "string option"
  replicas :: "string list"
  offline :: "bool option"
  endOffset :: int

record Topic =
  tname :: string
  partitions :: "Partition list"
  color :: string

record Cluster =
  brokers :: "Broker list"
  topics :: "Topic list"

record Consumer =
  cid :: string

record ConsumerGroup =
  gid :: string
  members :: "Consumer list"
  assignments :: "string \<rightharpoonup> string"
  offsets :: "string \<rightharpoonup> int"

text \<open>The exceptions the modelled functions can raise: reading a property of \<open>undefined\<close>,
  and creating an array whose length is not below \<open>2^32\<close>.\<close>

datatype error = TypeError | RangeError

section \<open>Leader election (electLeaders, lines 107-120)\<close>

text \<open>
  JavaScript truthiness of a \<open>string | null\<close> (or of a missing map entry): \<open>null\<close>,
  \<open>undefined\<close> and the empty string are falsy.
\<close>

definition truthy :: "string option \<Rightarrow> bool" where
  "truthy v = (case v of None \<Rightarrow> False | Some s \<Rightarrow> s \<noteq> [])"

text \<open>\<open>new Set(c.brokers.filter((b) => b.up).map((b) => b.id))\<close>\<close>

definition upSet :: "Cluster \<Rightarrow> string set" where
  "upSet c = set (map bid (filter up (brokers c)))"

text \<open>The body of the inner \<open>forEach\<close>, for one partition \<open>p\<close> and the set \<open>us\<close> of ids
  of brokers that are up.\<close>

definition aliveReplicas :: "string set \<Rightarrow> Partition \<Rightarrow> string list" where
  "aliveReplicas us p = filter (\<lambda>r. r \<in> us) (replicas p)"

definition hasLeaderAlive :: "string set \<Rightarrow> Partition \<Rightarrow> bool" where
  "hasLeaderAlive us p = (case leader p of None \<Rightarrow> False | Some l \<Rightarrow> l \<noteq> [] \<and> l \<in> us)"

definition electPartition :: "string set \<Rightarrow> Partition \<Rightarrow> Partition" where
  "electPartition us p =
     (let leader' = (if \<not> hasLeaderAlive us p
                     then (case aliveReplicas us p of [] \<Rightarrow> None | r # _ \<Rightarrow> Some r)
                     else leader p)
      in p\<lparr>leader := leader', offline := Some (\<not> truthy leader')\<rparr>)"

text \<open>The function mutates the cluster in place; the model returns the updated cluster.\<close>

definition electLeaders :: "Cluster \<Rightarrow> Cluster" where
  "electLeaders c =
     c\<lparr>topics := map (\<lambda>t. t\<lparr>partitions := map (electPartition (upSet c)) (partitions t)\<rparr>)
                    (topics c)\<rparr>"

section \<open>Numbers, strings and arrays of the host language\<close>

text \<open>
  A template literal turns a number into its decimal digits. \<open>natToString\<close> does so for a
  non-negative integer (an array index), \<open>numToString\<close> for any integer.
\<close>

definition digitChar :: "nat \<Rightarrow> char" where
  "digitChar d = ''0123456789'' ! d"

fun natToString :: "nat \<Rightarrow> string" where
  "natToString n =
     (if n < 10 then [digitChar n] else natToString (n div 10) @ [digitChar (n mod 10)])"

declare natToString.simps [simp del]

definition numToString :: "int \<Rightarrow> string" where
  "numToString i =
     (if i < 0 then CHR ''-'' # natToString (nat (- i)) else natToString (nat i))"

text \<open>
  The remainder operator \<open>%\<close> on integer-valued numbers: the result has the sign of the
  dividend, and a zero divisor gives \<open>NaN\<close>, which is \<open>None\<close> here.
\<close>

definition jsRem :: "int \<Rightarrow> int \<Rightarrow> int option" where
  "jsRem a b = (if b = 0 then None else Some (sgn a * (\<bar>a\<bar> mod \<bar>b\<bar>)))"

text \<open>A \<open>map\<close> whose callback may throw: the first exception ends it.\<close>

fun mapE :: "('a \<Rightarrow> error + 'b) \<Rightarrow> 'a list \<Rightarrow> error + 'b list" where
  "mapE f [] = Inr []"
| "mapE f (x # xs) =
     (case f x of
        Inl e \<Rightarrow> Inl e
      | Inr y \<Rightarrow> (case mapE f xs of Inl e \<Rightarrow> Inl e | Inr ys \<Rightarrow> Inr (y # ys)))"

text \<open>
  A number that may be \<open>NaN\<close> is an \<open>int option\<close>, with \<open>None\<close> for \<open>NaN\<close>. \<open>toLength\<close>
  is the conversion that \<open>Array.from\<close> applies to the \<open>length\<close> of its argument: \<open>NaN\<close>
  and negative numbers become 0, and nothing exceeds \<open>2^53 - 1\<close>.
\<close>

definition toLength :: "int option \<Rightarrow> int" where
  "toLength n = (case n of None \<Rightarrow> 0 | Some k \<Rightarrow> max 0 (min k (2 ^ 53 - 1)))"

text \<open>
  \<open>Array.from({ length: n }, (_, i) => f(i))\<close>: the array is created first, which throws
  a \<open>RangeError\<close> when the length is not below \<open>2^32\<close>; then the callback runs for each
  index in turn and may throw.
\<close>

definition arrayFrom :: "int option \<Rightarrow> (nat \<Rightarrow> error + 'a) \<Rightarrow> error + 'a list" where
  "arrayFrom n f =
     (if 2 ^ 32 \<le> toLength n then Inl RangeError else mapE f [0..<nat (toLength n)])"

text \<open>
  Integer-valued numbers are IEEE doubles. \<open>nearestDouble x\<close> is the double nearest to the
  integer \<open>x\<close>, ties going to the even significand: integers of magnitude below \<open>2^53\<close>
  are doubles themselves, and from there on \<open>excessBits\<close> low bits are rounded away.
  \<open>jsInc n\<close> is \<open>n + 1\<close> as the code computes it.
\<close>

function excessBits :: "int \<Rightarrow> nat" where
  "excessBits a = (if a < 2 ^ 53 then 0 else Suc (excessBits (a div 2)))"
  by pat_completeness auto

termination
  by (relation "measure nat") auto

declare excessBits.simps [simp del]

definition nearestDouble :: "int \<Rightarrow> int" where
  "nearestDouble x =
     (let k = excessBits \<bar>x\<bar>
      in if k = 0 then x
         else (let q = \<bar>x\<bar> div 2 ^ k;
                   r = \<bar>x\<bar> mod 2 ^ k;
                   h = 2 ^ (k - 1);
                   q' = (if h < r \<or> (r = h \<and> odd q) then q + 1 else q)
               in sgn x * (q' * 2 ^ k)))"

definition jsInc :: "int \<Rightarrow> int" where
  "jsInc n = nearestDouble (n + 1)"

text \<open>\<open>Math.max(a, x)\<close> for a number \<open>a\<close> and a number \<open>x\<close> that may be \<open>NaN\<close>: the result is
  \<open>NaN\<close> when \<open>x\<close> is.\<close>

definition jsMax :: "int \<Rightarrow> int option \<Rightarrow> int option" where
  "jsMax a x = (case x of None \<Rightarrow> None | Some v \<Rightarrow> Some (max a v))"

definition jsMin :: "int \<Rightarrow> int option \<Rightarrow> int option" where
  "jsMin a x = (case x of None \<Rightarrow> None | Some v \<Rightarrow> Some (min a v))"

text \<open>\<open>a + k\<close> and \<open>a % b\<close> for numbers \<open>a\<close> and \<open>b\<close> that may be \<open>NaN\<close>.\<close>

definition jsAdd :: "int option \<Rightarrow> int \<Rightarrow> int option" where
  "jsAdd a k = (case a of None \<Rightarrow> None | Some x \<Rightarrow> Some (x + k))"

definition jsRemN :: "int option \<Rightarrow> int option \<Rightarrow> int option" where
  "jsRemN a b = (case a of None \<Rightarrow> None
                 | Some x \<Rightarrow> (case b of None \<Rightarrow> None | Some y \<Rightarrow> jsRem x y))"

text \<open>The index in the array of the element that \<open>Array.prototype.find\<close> returns.\<close>

fun findIndex :: "('a \<Rightarrow> bool) \<Rightarrow> 'a list \<Rightarrow> nat option" where
  "findIndex P [] = None"
| "findIndex P (x # xs) = (if P x then Some 0 else map_option Suc (findIndex P xs))"

section \<open>Producer routing (hashKeyToPartition, lines 60-64)\<close>

text \<open>
  A key is a sequence of UTF-16 code units, which is what \<open>charCodeAt\<close> reads; it is the
  only string that the code reads character by character, the others (names, ids, map
  keys) are only compared and concatenated. \<open>x | 0\<close> is the conversion of an
  integer-valued number to a signed 32-bit integer.
\<close>

definition toInt32 :: "int \<Rightarrow> int" where
  "toInt32 x = (x + 2 ^ 31) mod 2 ^ 32 - 2 ^ 31"

definition hashStep :: "int \<Rightarrow> 16 word \<Rightarrow> int" where
  "hashStep h ch = toInt32 (h * 31 + uint ch)"

definition hashKeyToPartition :: "16 word list \<Rightarrow> int \<Rightarrow> int option" where
  "hashKeyToPartition key parts = jsRem \<bar>foldl hashStep 0 key\<bar> parts"

text \<open>
  The hash as the specification words it: the polynomial rolling hash
  \<open>h = h * 31 + charCode\<close> over 32-bit arithmetic, read as a signed value.
\<close>

definition rollingHash32 :: "16 word list \<Rightarrow> 32 word" where
  "rollingHash32 key = foldl (\<lambda>h ch. h * 31 + ucast ch) 0 key"

section \<open>Topology builder (buildCluster, lines 66-95)\<close>

text \<open>
  A topic configuration as the component keeps it in \<open>topicsSpec\<close>. The broker count and
  the partition count of a topic may be \<open>NaN\<close> (see the handlers of the number fields
  below); the replication factor is an integer.
\<close>

record TopicConfig =
  cfg_name :: string
  cfg_partitions :: "int option"
  replicationFactor :: int

definition PALETTE :: "string list" where
  "PALETTE = [''#22c55e'', ''#3b82f6'', ''#eab308'', ''#ef4444'',
              ''#a855f7'', ''#06b6d4'', ''#f97316'', ''#84cc16'']"

definition mkBroker :: "nat \<Rightarrow> Broker" where
  "mkBroker i = \<lparr>bid = ''b'' @ natToString i, bname = ''broker-'' @ natToString i, up = True\<rparr>"

definition mkBrokers :: "int option \<Rightarrow> error + Broker list" where
  "mkBrokers brokerCount = arrayFrom brokerCount (\<lambda>i. Inr (mkBroker i))"

text \<open>\<open>brokers[ri].id\<close>: the index may be \<open>NaN\<close> or out of range, the element is then
  \<open>undefined\<close> and reading its \<open>id\<close> throws.\<close>

definition brokerIdAt :: "Broker list \<Rightarrow> int option \<Rightarrow> error + string" where
  "brokerIdAt bs ri =
     (case ri of
        None \<Rightarrow> Inl TypeError
      | Some k \<Rightarrow> if 0 \<le> k \<and> k < int (length bs) then Inr (bid (bs ! nat k)) else Inl TypeError)"

text \<open>The callback that builds partition \<open>p\<close>. The leader \<open>replicas[0]\<close> of an empty replica
  list is \<open>undefined\<close>, which is \<open>None\<close> here, as \<open>null\<close> is.\<close>

definition mkPartition ::
  "int option \<Rightarrow> Broker list \<Rightarrow> string \<Rightarrow> int option \<Rightarrow> nat \<Rightarrow> error + Partition" where
  "mkPartition brokerCount bs tn rf p =
     (let leaderIdx = jsRemN (Some (int p)) brokerCount
      in case arrayFrom rf (\<lambda>k. Inr (jsRemN (jsAdd leaderIdx (int k)) brokerCount)) of
           Inl e \<Rightarrow> Inl e
         | Inr replicaIdxs \<Rightarrow>
             (case mapE (brokerIdAt bs) replicaIdxs of
                Inl e \<Rightarrow> Inl e
              | Inr rs \<Rightarrow>
                  Inr \<lparr>pid = int p, topic = tn,
                       leader = (case rs of [] \<Rightarrow> None | r # _ \<Rightarrow> Some r),
                       replicas = rs, offline = None, endOffset = 0\<rparr>))"

definition mkTopic :: "int option \<Rightarrow> Broker list \<Rightarrow> TopicConfig \<Rightarrow> nat \<Rightarrow> error + Topic" where
  "mkTopic brokerCount bs t idx =
     (let rf = jsMax 1 (jsMin (replicationFactor t) brokerCount)
      in case arrayFrom (cfg_partitions t) (mkPartition brokerCount bs (cfg_name t) rf) of
           Inl e \<Rightarrow> Inl e
         | Inr parts \<Rightarrow>
             Inr \<lparr>tname = cfg_name t, partitions = parts,
                  color = PALETTE ! (idx mod length PALETTE)\<rparr>)"

definition buildCluster :: "int option \<Rightarrow> TopicConfig list \<Rightarrow> error + Cluster" where
  "buildCluster brokerCount topicsConfig =
     (case mkBrokers brokerCount of
        Inl e \<Rightarrow> Inl e
      | Inr bs \<Rightarrow>
          (case mapE (\<lambda>(idx, t). mkTopic brokerCount bs t idx) (enumerate 0 topicsConfig) of
             Inl e \<Rightarrow> Inl e
           | Inr ts \<Rightarrow> Inr \<lparr>brokers = bs, topics = ts\<rparr>))"

section \<open>Producing a record (cloneCluster, lines 97-105; produce, lines 308-319)\<close>

definition cloneCluster :: "Cluster \<Rightarrow> Cluster" where
  "cloneCluster c =
     \<lparr>brokers = map (\<lambda>b. b) (brokers c),
      topics = map (\<lambda>t. t\<lparr>partitions :=
                            map (\<lambda>p. p\<lparr>replicas := map (\<lambda>r. r) (replicas p)\<rparr>) (partitions t)\<rparr>)
                   (topics c)\<rparr>"

text \<open>
  The state updater of \<open>produce\<close>, with the component state it reads (\<open>produceTopic\<close>,
  \<open>produceKey\<close>) and the value \<open>rnd\<close> that \<open>Math.random()\<close> returns as parameters. Reading
  \<open>endOffset\<close> of a partition that is not there throws.
\<close>

definition produce :: "Cluster \<Rightarrow> string \<Rightarrow> 16 word list \<Rightarrow> real \<Rightarrow> error + Cluster" where
  "produce prev produceTopic produceKey rnd =
     (let next = cloneCluster prev
      in case findIndex (\<lambda>x. tname x = produceTopic) (topics next) of
           None \<Rightarrow> Inr prev
         | Some ti \<Rightarrow>
             (let t = topics next ! ti;
                  pCount = int (length (partitions t));
                  pidx = (if produceKey \<noteq> [] then hashKeyToPartition produceKey pCount
                          else Some \<lfloor>rnd * of_int pCount\<rfloor>)
              in case pidx of
                   None \<Rightarrow> Inl TypeError
                 | Some k \<Rightarrow>
                     if 0 \<le> k \<and> k < pCount
                     then Inr (next\<lparr>topics := (topics next)
                             [ti := t\<lparr>partitions := (partitions t)
                                [nat k := (partitions t ! nat k)
                                   \<lparr>endOffset := jsInc (endOffset (partitions t ! nat k))\<rparr>]\<rparr>]\<rparr>)
                     else Inl TypeError))"

section \<open>Group coordinator (partitionKey, rebalanceGroup, consumeOnce)\<close>

definition partitionKey :: "string \<Rightarrow> int \<Rightarrow> string" where
  "partitionKey t p = t @ '':p'' @ numToString p"

definition allParts :: "Topic list \<Rightarrow> string list" where
  "allParts ts = concat (map (\<lambda>t. map (\<lambda>p. partitionKey (tname t) (pid p)) (partitions t)) ts)"

definition rebalanceGroup :: "ConsumerGroup \<Rightarrow> Topic list \<Rightarrow> ConsumerGroup" where
  "rebalanceGroup g ts =
     (if length (members g) = 0 then g\<lparr>assignments := Map.empty\<rparr>
      else g\<lparr>assignments :=
               foldl (\<lambda>asg (i, pk). asg(pk \<mapsto> cid (members g ! (i mod length (members g)))))
                     Map.empty (enumerate 0 (allParts ts))\<rparr>)"

text \<open>\<open>g.offsets[key] || 0\<close>\<close>

definition committedOffset :: "ConsumerGroup \<Rightarrow> string \<Rightarrow> int" where
  "committedOffset g key = (case offsets g key of None \<Rightarrow> 0 | Some v \<Rightarrow> v)"

text \<open>The body of the inner \<open>forEach\<close> of \<open>consumeOnce\<close>, for the topic name \<open>tn\<close>, the
  partition \<open>p\<close> and the group \<open>target\<close>.\<close>

definition consumePartition :: "string \<Rightarrow> Partition \<Rightarrow> ConsumerGroup \<Rightarrow> ConsumerGroup" where
  "consumePartition tn p target =
     (let pk = partitionKey tn (pid p);
          assigned = assignments target pk
      in if \<not> truthy assigned then target
         else (let committed = committedOffset target pk
               in if committed < endOffset p
                  then target\<lparr>offsets := (offsets target)(pk \<mapsto> jsInc committed)\<rparr>
                  else target))"

definition consumeAll :: "Cluster \<Rightarrow> ConsumerGroup \<Rightarrow> ConsumerGroup" where
  "consumeAll cluster target =
     foldl (\<lambda>g t. foldl (\<lambda>g' p. consumePartition (tname t) p g') g (partitions t))
           target (topics cluster)"

text \<open>\<open>consumeOnce\<close> reads the component state \<open>groups\<close> and \<open>cluster\<close> and sets \<open>groups\<close>;
  the model returns the new value of \<open>groups\<close>.\<close>

definition consumeOnce :: "ConsumerGroup list \<Rightarrow> Cluster \<Rightarrow> string \<Rightarrow> ConsumerGroup list" where
  "consumeOnce groups cluster groupId =
     (case findIndex (\<lambda>x. gid x = groupId) groups of
        None \<Rightarrow> groups
      | Some gi \<Rightarrow> (map (\<lambda>gg. gg) groups)[gi := consumeAll cluster (map (\<lambda>gg. gg) groups ! gi)])"

section \<open>The component's state and its handlers\<close>

text \<open>
  The initial value of \<open>topicsSpec\<close> (lines 180-184) and of \<open>groups\<close> (lines 189-192).
\<close>

definition initialSpec :: "TopicConfig list" where
  "initialSpec = [\<lparr>cfg_name = ''logs'', cfg_partitions = Some 6, replicationFactor = 2\<rparr>,
                  \<lparr>cfg_name = ''purchases'', cfg_partitions = Some 6, replicationFactor = 3\<rparr>,
                  \<lparr>cfg_name = ''trucks_gps'', cfg_partitions = Some 6, replicationFactor = 2\<rparr>]"

definition initialGroups :: "ConsumerGroup list" where
  "initialGroups =
     [\<lparr>gid = ''g1'', members = [\<lparr>cid = ''c1''\<rparr>, \<lparr>cid = ''c2''\<rparr>],
       assignments = Map.empty, offsets = Map.empty\<rparr>,
      \<lparr>gid = ''g2'', members = [\<lparr>cid = ''c3''\<rparr>],
       assignments = Map.empty, offsets = Map.empty\<rparr>]"

text \<open>\<open>addTopic\<close> (lines 296-298) and \<open>removeTopic\<close> (lines 299-300), as functions of the
  previous \<open>topicsSpec\<close>.\<close>

definition addTopic :: "TopicConfig list \<Rightarrow> TopicConfig list" where
  "addTopic prev =
     prev @ [\<lparr>cfg_name = ''topic_'' @ natToString (length prev), cfg_partitions = Some 6,
              replicationFactor = 2\<rparr>]"

definition removeTopic :: "nat \<Rightarrow> TopicConfig list \<Rightarrow> TopicConfig list" where
  "removeTopic idx prev = map snd (filter (\<lambda>(i, t). i \<noteq> idx) (enumerate 0 prev))"

text \<open>
  The number fields. \<open>parsed\<close> is the number that \<open>parseInt\<close> returns for the text of the
  field, \<open>NaN\<close> when the text does not start with a digit or a sign and a digit (as the
  text \<open>.5\<close>, which a number field accepts). The broker field (line 414) sets
  \<open>brokerCount\<close> to \<open>Math.max(1, Math.min(12, parsed))\<close>. The partitions field of topic
  \<open>idx\<close> (lines 460-463) calls \<open>updateTopicSpec(idx, "partitions", value)\<close> (lines
  279-294), which sets the field to \<open>Math.max(1, parsed)\<close>; writing a field of an entry
  that is not there throws.
\<close>

definition setBrokerCount :: "int option \<Rightarrow> int option" where
  "setBrokerCount parsed = jsMax 1 (jsMin 12 parsed)"

definition updatePartitions ::
  "nat \<Rightarrow> int option \<Rightarrow> TopicConfig list \<Rightarrow> error + TopicConfig list" where
  "updatePartitions idx parsed prev =
     (if idx < length prev
      then Inr (prev[idx := (prev ! idx)\<lparr>cfg_partitions := jsMax 1 parsed\<rparr>])
      else Inl TypeError)"

text \<open>The ``add consumer'' button of a group (line 633), and the effect that rebalances
  every group when the topology or the membership changes (lines 208-214).\<close>

definition addConsumer :: "string \<Rightarrow> ConsumerGroup list \<Rightarrow> ConsumerGroup list" where
  "addConsumer g prev =
     map (\<lambda>gg. if gid gg = g
               then gg\<lparr>members := members gg
                         @ [\<lparr>cid = ''c'' @ natToString (length (members gg) + 1)\<rparr>]\<rparr>
               else gg) prev"

definition rebalanceAll :: "ConsumerGroup list \<Rightarrow> Cluster \<Rightarrow> ConsumerGroup list" where
  "rebalanceAll prev cluster = map (\<lambda>g. rebalanceGroup g (topics cluster)) prev"


section \<open>Example states\<close>

text \<open>
  Three brokers with \<open>b0\<close> down. Topic \<open>t\<close> has three partitions with two replicas each,
  placed round-robin, each led by its first replica; topic \<open>u\<close> has one partition whose
  only replica is \<open>b0\<close>. It is the cluster built for three brokers from \<open>exSpec\<close>, after
  \<open>b0\<close> is switched off and before leaders are elected.
\<close>

definition exCluster :: Cluster where
  "exCluster =
     \<lparr>brokers = [\<lparr>bid = ''b0'', bname = ''broker-0'', up = False\<rparr>,
                 \<lparr>bid = ''b1'', bname = ''broker-1'', up = True\<rparr>,
                 \<lparr>bid = ''b2'', bname = ''broker-2'', up = True\<rparr>],
      topics = [\<lparr>tname = ''t'',
                 partitions =
                   [\<lparr>pid = 0, topic = ''t'', leader = Some ''b0'', replicas = [''b0'', ''b1''],
                     offline = None, endOffset = 0\<rparr>,
                    \<lparr>pid = 1, topic = ''t'', leader = Some ''b1'', replicas = [''b1'', ''b2''],
                     offline = None, endOffset = 0\<rparr>,
                    \<lparr>pid = 2, topic = ''t'', leader = Some ''b2'', replicas = [''b2'', ''b0''],
                     offline = None, endOffset = 0\<rparr>],
                 color = ''#22c55e''\<rparr>,
                \<lparr>tname = ''u'',
                 partitions =
                   [\<lparr>pid = 0, topic = ''u'', leader = Some ''b0'', replicas = [''b0''],
                     offline = None, endOffset = 0\<rparr>],
                 color = ''#3b82f6''\<rparr>]\<rparr>"



text \<open>
  Four topic configurations for three brokers: \<open>t\<close> is the first example scenario of the
  specification, \<open>u\<close> asks for no partition, \<open>v\<close> for more replicas than there are
  brokers, \<open>w\<close> for a negative replication factor. \<open>exBuilt\<close> is the cluster that
  \<open>buildCluster\<close> returns for them.
\<close>

definition exConfig :: "TopicConfig list" where
  "exConfig = [\<lparr>cfg_name = ''t'', cfg_partitions = Some 3, replicationFactor = 2\<rparr>,
               \<lparr>cfg_name = ''u'', cfg_partitions = Some 0, replicationFactor = 0\<rparr>,
               \<lparr>cfg_name = ''v'', cfg_partitions = Some 1, replicationFactor = 7\<rparr>,
               \<lparr>cfg_name = ''w'', cfg_partitions = Some 2, replicationFactor = - 1\<rparr>]"

definition exBuilt :: Cluster where
  "exBuilt =
     \<lparr>brokers = [\<lparr>bid = ''b0'', bname = ''broker-0'', up = True\<rparr>,
                 \<lparr>bid = ''b1'', bname = ''broker-1'', up = True\<rparr>,
                 \<lparr>bid = ''b2'', bname = ''broker-2'', up = True\<rparr>],
      topics = [\<lparr>tname = ''t'',
                 partitions =
                   [\<lparr>pid = 0, topic = ''t'', leader = Some ''b0'', replicas = [''b0'', ''b1''],
                     offline = None, endOffset = 0\<rparr>,
                    \<lparr>pid = 1, topic = ''t'', leader = Some ''b1'', replicas = [''b1'', ''b2''],
                     offline = None, endOffset = 0\<rparr>,
                    \<lparr>pid = 2, topic = ''t'', leader = Some ''b2'', replicas = [''b2'', ''b0''],
                     offline = None, endOffset = 0\<rparr>],
                 color = ''#22c55e''\<rparr>,
                \<lparr>tname = ''u'', partitions = [], color = ''#3b82f6''\<rparr>,
                \<lparr>tname = ''v'',
                 partitions =
                   [\<lparr>pid = 0, topic = ''v'', leader = Some ''b0'',
                     replicas = [''b0'', ''b1'', ''b2''], offline = None, endOffset = 0\<rparr>],
                 color = ''#eab308''\<rparr>,
                \<lparr>tname = ''w'',
                 partitions =
                   [\<lparr>pid = 0, topic = ''w'', leader = Some ''b0'', replicas = [''b0''],
                     offline = None, endOffset = 0\<rparr>,
                    \<lparr>pid = 1, topic = ''w'', leader = Some ''b1'', replicas = [''b1''],
                     offline = None, endOffset = 0\<rparr>],
                 color = ''#ef4444''\<rparr>]\<rparr>"


text \<open>
  Three states of the component, each reached from the initial state through its
  handlers. \<open>dupSpec\<close> is \<open>topicsSpec\<close> after ``add topic'', ``remove'' on the first topic
  and ``add topic'' again: its last two topics are both named \<open>topic_3\<close>. \<open>nanSpec\<close> is
  \<open>topicsSpec\<close> after the text \<open>.5\<close> is entered in the partitions field of the first
  topic, for which \<open>parseInt\<close> returns \<open>NaN\<close>; \<open>hugeSpec\<close> after the text \<open>4294967296\<close> is
  entered there. \<open>fourGroups\<close> is \<open>groups\<close> after two clicks on ``add consumer'' of group
  \<open>g1\<close>. \<open>userKey\<close> is the key \<open>user-42\<close>.
\<close>

definition dupSpec :: "TopicConfig list" where
  "dupSpec = addTopic (removeTopic 0 (addTopic initialSpec))"

definition nanSpec :: "error + TopicConfig list" where
  "nanSpec = updatePartitions 0 None initialSpec"

definition hugeSpec :: "error + TopicConfig list" where
  "hugeSpec = updatePartitions 0 (Some 4294967296) initialSpec"

definition fourGroups :: "ConsumerGroup list" where
  "fourGroups = addConsumer ''g1'' (addConsumer ''g1'' initialGroups)"

definition userKey :: "16 word list" where
  "userKey = [117, 115, 101, 114, 45, 52, 50]"

section \<open>Properties of leader election\<close>



lemma electPartition_frame:
  "pid (electPartition us p) = pid p"
  "topic (electPartition us p) = topic p"
  "replicas (electPartition us p) = replicas p"
  "endOffset (electPartition us p) = endOffset p"
  by (simp_all add: electPartition_def Let_def)





lemma leader_electPartition:
  "leader (electPartition us p) =
     (if hasLeaderAlive us p then leader p
      else (case aliveReplicas us p of [] \<Rightarrow> None | r # _ \<Rightarrow> Some r))"
  by (simp add: electPartition_def Let_def)





lemma electPartition_idem: "electPartition us (electPartition us p) = electPartition us p"
proof -
  let ?q = "electPartition us p"
  have a: "aliveReplicas us ?q = aliveReplicas us p"
    by (simp add: aliveReplicas_def electPartition_frame)
  have "leader (electPartition us ?q) = leader ?q"
  proof (cases "hasLeaderAlive us ?q")
    case True
    then show ?thesis by (simp add: leader_electPartition[of us ?q])
  next
    case False
    show ?thesis
    proof (cases "hasLeaderAlive us p")
      case True
      then have "leader ?q = leader p" by (simp add: leader_electPartition)
      with True have "hasLeaderAlive us ?q" by (simp add: hasLeaderAlive_def)
      with False show ?thesis by simp
    next
      case F: False
      then have "leader ?q = (case aliveReplicas us p of [] \<Rightarrow> None | r # _ \<Rightarrow> Some r)"
        by (simp add: leader_electPartition)
      with False a show ?thesis by (simp add: leader_electPartition[of us ?q])
    qed
  qed
  then show ?thesis
    by (simp add: electPartition_def[of us ?q] Let_def) (simp add: electPartition_def Let_def)
qed


text \<open>
  Claim C9. \<open>electLeaders\<close> is idempotent: it leaves the brokers as they are, and a second
  run right after a first one returns the cluster of the first run, so every leader and
  every \<open>offline\<close> flag stays as the first run left it.
\<close>

theorem electLeaders_idempotent: "electLeaders (electLeaders c) = electLeaders c"
  by (simp add: electLeaders_def upSet_def electPartition_idem o_def)

theorem electLeaders_idempotent_witness:
  "electLeaders (electLeaders exCluster) = electLeaders exCluster"
  by (rule electLeaders_idempotent)

text \<open>
  Claim C10. \<open>electLeaders\<close> changes nothing but the \<open>leader\<close> and \<open>offline\<close> fields of
  partitions: the list of brokers (ids, names, \<open>up\<close> flags) is the same, and so is the
  list of topics with their names and colours and, in order, the partition index, topic
  name, replica list and end offset of each of their partitions.
\<close>

theorem electLeaders_frame:
  "brokers (electLeaders c) = brokers c \<and>
   map (\<lambda>t. (tname t, color t,
             map (\<lambda>p. (pid p, topic p, replicas p, endOffset p)) (partitions t)))
       (topics (electLeaders c)) =
   map (\<lambda>t. (tname t, color t,
             map (\<lambda>p. (pid p, topic p, replicas p, endOffset p)) (partitions t)))
       (topics c)"
  by (simp add: electLeaders_def o_def electPartition_frame)

theorem electLeaders_frame_witness:
  "brokers (electLeaders exCluster) = brokers exCluster \<and>
   map (\<lambda>t. (tname t, color t,
             map (\<lambda>p. (pid p, topic p, replicas p, endOffset p)) (partitions t)))
       (topics (electLeaders exCluster)) =
   [(''t'', ''#22c55e'', [(0, ''t'', [''b0'', ''b1''], 0), (1, ''t'', [''b1'', ''b2''], 0),
                          (2, ''t'', [''b2'', ''b0''], 0)]),
    (''u'', ''#3b82f6'', [(0, ''u'', [''b0''], 0)])]"
  using electLeaders_frame[of exCluster] by (simp add: exCluster_def)

section \<open>Properties of the routing hash\<close>

lemma jsRem_nonneg: "0 \<le> a \<Longrightarrow> 0 < b \<Longrightarrow> jsRem a b = Some (a mod b)"
  by (simp add: jsRem_def sgn_if)

lemma toInt32_signed: "toInt32 x = signed_take_bit 31 x"
  by (simp add: toInt32_def signed_take_bit_eq_take_bit_shift take_bit_eq_mod)

lemma hash_word_as_int:
  "(w * 31 + ucast ch :: 32 word) = word_of_int (sint w * 31 + uint (ch :: 16 word))"
  by simp

lemma sint_hash_step: "sint (w * 31 + ucast ch :: 32 word) = hashStep (sint w) (ch :: 16 word)"
  unfolding hash_word_as_int hashStep_def toInt32_signed
  by (simp only: signed_of_int) simp

lemma sint_foldl_hash:
  "sint (foldl (\<lambda>h ch. h * 31 + ucast ch) (w :: 32 word) key) = foldl hashStep (sint w) key"
  by (induction key arbitrary: w) (simp_all add: sint_hash_step)

lemma sint_rollingHash32: "sint (rollingHash32 key) = foldl hashStep 0 key"
  using sint_foldl_hash[of 0 key] by (simp add: rollingHash32_def)

text \<open>
  Claim C4. For every key and every partition count \<open>n \<ge> 1\<close>, \<open>hashKeyToPartition\<close>
  returns the absolute value of the 32-bit signed rolling hash of the key, modulo \<open>n\<close>,
  and this index lies in \<open>[0, n)\<close>. The result is a function of the key and of \<open>n\<close>
  alone, so two calls with the same arguments return the same index.
\<close>

theorem hashKeyToPartition_rolling_hash:
  assumes "1 \<le> n"
  shows "hashKeyToPartition key n = Some (\<bar>sint (rollingHash32 key)\<bar> mod n)
       \<and> 0 \<le> \<bar>sint (rollingHash32 key)\<bar> mod n \<and> \<bar>sint (rollingHash32 key)\<bar> mod n < n"
  using assms by (simp add: hashKeyToPartition_def sint_rollingHash32 jsRem_nonneg)

text \<open>
  The theorem at the key \<open>user-42\<close> (code units 117, 115, 101, 114, 45, 52, 50) and six
  partitions: the hash has wrapped around to \<open>-147182656\<close>, and the index is 4.
\<close>

theorem hashKeyToPartition_rolling_hash_witness:
  "(1 :: int) \<le> 6
   \<and> sint (rollingHash32 [117, 115, 101, 114, 45, 52, 50]) = - 147182656
   \<and> hashKeyToPartition [117, 115, 101, 114, 45, 52, 50] 6 = Some 4"
proof -
  have h: "sint (rollingHash32 [117, 115, 101, 114, 45, 52, 50]) = - 147182656"
    by (simp add: rollingHash32_def)
  with hashKeyToPartition_rolling_hash[of 6 "[117, 115, 101, 114, 45, 52, 50]"]
  show ?thesis by simp
qed

section \<open>Properties of the topology builder\<close>

lemma digitChar_inj:
  assumes "d < 10" "e < 10" "digitChar d = digitChar e"
  shows "d = e"
proof -
  have "distinct ''0123456789''" by simp
  moreover have "d < length ''0123456789''" "e < length ''0123456789''"
    using assms by simp_all
  ultimately show "d = e"
    using assms(3) unfolding digitChar_def by (simp only: nth_eq_iff_index_eq)
qed

lemma natToString_nonempty: "natToString n \<noteq> []"
  by (subst natToString.simps) simp

lemma natToString_inj: "natToString n = natToString m \<Longrightarrow> n = m"
proof (induction n arbitrary: m rule: natToString.induct)
  case (1 n)
  show ?case
  proof (cases "n < 10")
    case True
    show ?thesis
    proof (cases "m < 10")
      case m: True
      from "1.prems" True m have "digitChar n = digitChar m"
        by (simp add: natToString.simps[of n] natToString.simps[of m])
      with True m show ?thesis by (rule digitChar_inj)
    next
      case False
      with "1.prems" True have "[digitChar n] = natToString (m div 10) @ [digitChar (m mod 10)]"
        by (simp add: natToString.simps[of n] natToString.simps[of m])
      then show ?thesis using natToString_nonempty[of "m div 10"] by simp
    qed
  next
    case False
    show ?thesis
    proof (cases "m < 10")
      case True
      with "1.prems" False have "natToString (n div 10) @ [digitChar (n mod 10)] = [digitChar m]"
        by (simp add: natToString.simps[of n] natToString.simps[of m])
      then show ?thesis using natToString_nonempty[of "n div 10"] by simp
    next
      case m: False
      with "1.prems" False
      have "natToString (n div 10) @ [digitChar (n mod 10)]
              = natToString (m div 10) @ [digitChar (m mod 10)]"
        by (simp add: natToString.simps[of n] natToString.simps[of m])
      then have a: "natToString (n div 10) = natToString (m div 10)"
        and b: "digitChar (n mod 10) = digitChar (m mod 10)" by simp_all
      from "1.IH"[OF False a] have "n div 10 = m div 10" .
      moreover from b have "n mod 10 = m mod 10" by (intro digitChar_inj) simp_all
      ultimately show ?thesis by (metis div_mult_mod_eq)
    qed
  qed
qed

lemma mapE_Inr: "(\<And>x. x \<in> set xs \<Longrightarrow> f x = Inr (g x)) \<Longrightarrow> mapE f xs = Inr (map g xs)"
  by (induction xs) simp_all



lemma mapE_Inr_all: "mapE f xs = Inr ys \<Longrightarrow> x \<in> set xs \<Longrightarrow> \<exists>y. f x = Inr y"
proof (induction xs arbitrary: ys)
  case Nil
  then show ?case by simp
next
  case (Cons a xs)
  from Cons.prems(1) obtain z zs where z: "f a = Inr z" and zs: "mapE f xs = Inr zs"
    by (auto split: sum.splits)
  from Cons.prems(2) have "x = a \<or> x \<in> set xs" by simp
  then show ?case
  proof
    assume "x = a"
    with z show ?thesis by simp
  next
    assume "x \<in> set xs"
    from Cons.IH[OF zs this] show ?thesis .
  qed
qed

lemma toLength_Some: "0 \<le> n \<Longrightarrow> n < 2 ^ 32 \<Longrightarrow> toLength (Some n) = n"
  by (simp add: toLength_def)

lemma toLength_large: "2 ^ 32 \<le> n \<Longrightarrow> 2 ^ 32 \<le> toLength (Some n)"
  by (simp add: toLength_def)

lemma arrayFrom_Inr:
  "toLength n < 2 ^ 32 \<Longrightarrow> (\<And>i. i < nat (toLength n) \<Longrightarrow> f i = Inr (g i))
   \<Longrightarrow> arrayFrom n f = Inr (map g [0..<nat (toLength n)])"
proof -
  assume small: "toLength n < 2 ^ 32" and f: "\<And>i. i < nat (toLength n) \<Longrightarrow> f i = Inr (g i)"
  have "mapE f [0..<nat (toLength n)] = Inr (map g [0..<nat (toLength n)])"
    by (rule mapE_Inr) (simp add: f)
  with small show ?thesis by (simp add: arrayFrom_def)
qed

lemma arrayFrom_small: "arrayFrom n f = Inr ys \<Longrightarrow> toLength n < 2 ^ 32"
  by (simp add: arrayFrom_def split: if_splits)


lemma mkBrokers_ok:
  "0 \<le> bc \<Longrightarrow> bc < 2 ^ 32 \<Longrightarrow> mkBrokers (Some bc) = Inr (map mkBroker [0..<nat bc])"
proof -
  assume bc: "0 \<le> bc" "bc < 2 ^ 32"
  then have len: "toLength (Some bc) = bc" by (simp add: toLength_Some)
  with bc have small: "toLength (Some bc) < 2 ^ 32" by simp
  from arrayFrom_Inr[OF small, of "\<lambda>i. Inr (mkBroker i)" mkBroker] len
  show ?thesis by (simp add: mkBrokers_def)
qed

lemma brokerIdAt_mkBrokers:
  "0 \<le> k \<Longrightarrow> k < bc \<Longrightarrow>
   brokerIdAt (map mkBroker [0..<nat bc]) (Some k) = Inr (''b'' @ natToString (nat k))"
  by (simp add: brokerIdAt_def mkBroker_def)

lemma replica_index:
  assumes "1 \<le> bc"
  shows "jsRemN (jsAdd (jsRemN (Some (int p)) (Some bc)) (int k)) (Some bc)
           = Some (int ((p + k) mod nat bc))"
proof -
  have "jsRem (int p) bc = Some (int p mod bc)"
    using assms by (simp add: jsRem_nonneg)
  moreover have "jsRem (int p mod bc + int k) bc = Some ((int p mod bc + int k) mod bc)"
    using assms by (simp add: jsRem_nonneg)
  moreover have "(int p mod bc + int k) mod bc = int ((p + k) mod nat bc)"
    using assms by (simp add: zmod_int mod_add_left_eq)
  ultimately show ?thesis by (simp add: jsRemN_def jsAdd_def)
qed

lemma mkPartition_ok:
  assumes "1 \<le> bc" and "0 \<le> rf" and "rf < 2 ^ 32"
  shows "mkPartition (Some bc) (map mkBroker [0..<nat bc]) tn (Some rf) p =
           Inr \<lparr>pid = int p, topic = tn,
                leader = (case map (\<lambda>k. ''b'' @ natToString ((p + k) mod nat bc)) [0..<nat rf] of
                            [] \<Rightarrow> None | r # _ \<Rightarrow> Some r),
                replicas = map (\<lambda>k. ''b'' @ natToString ((p + k) mod nat bc)) [0..<nat rf],
                offline = None, endOffset = 0\<rparr>"
proof -
  let ?idxs = "map (\<lambda>k. Some (int ((p + k) mod nat bc))) [0..<nat rf]"
  have small: "toLength (Some rf) < 2 ^ 32" and len: "toLength (Some rf) = rf"
    using assms(2,3) by (simp_all add: toLength_Some)
  have idx: "arrayFrom (Some rf)
               (\<lambda>k. Inr (jsRemN (jsAdd (jsRemN (Some (int p)) (Some bc)) (int k)) (Some bc)))
             = Inr ?idxs"
    using arrayFrom_Inr[OF small, of _ "\<lambda>k. Some (int ((p + k) mod nat bc))"]
    by (simp add: replica_index[OF assms(1)] len)
  have "mapE (brokerIdAt (map mkBroker [0..<nat bc])) ?idxs
        = Inr (map (\<lambda>ri. ''b'' @ natToString (nat (the ri))) ?idxs)"
  proof (rule mapE_Inr)
    fix x assume "x \<in> set ?idxs"
    then obtain k where x: "x = Some (int ((p + k) mod nat bc))" by auto
    have "(p + k) mod nat bc < nat bc" using assms by simp
    then have "int ((p + k) mod nat bc) < bc" by linarith
    then show "brokerIdAt (map mkBroker [0..<nat bc]) x = Inr (''b'' @ natToString (nat (the x)))"
      by (simp add: x brokerIdAt_mkBrokers)
  qed
  then show ?thesis
    by (simp add: mkPartition_def Let_def idx o_def)
qed

lemma mod_shift_inj:
  fixes p k k' n :: nat
  assumes "k < n" "k' < n" "(p + k) mod n = (p + k') mod n"
  shows "k = k'"
proof -
  have aux: "a = b" if "a \<le> b" "b < n" "(p + a) mod n = (p + b) mod n" for a b :: nat
  proof -
    from that(1) have "p + a \<le> p + b" by simp
    from mod_eq_dvd_iff_nat[OF this, of n] that(3) have "n dvd (p + b) - (p + a)" by simp
    then have "n dvd b - a" by simp
    moreover have "b - a < n" using that by simp
    ultimately have "b - a = 0" by (meson dvd_imp_le not_less zero_less_iff_neq_zero)
    with that show ?thesis by simp
  qed
  show ?thesis
  proof (cases "k \<le> k'")
    case True
    with aux[of k k'] assms show ?thesis by simp
  next
    case False
    with aux[of k' k] assms show ?thesis by simp
  qed
qed

lemma distinct_replica_ids:
  assumes "r \<le> n"
  shows "distinct (map (\<lambda>k. ''b'' @ natToString ((p + k) mod n)) [0..<r])"
proof -
  have "inj_on (\<lambda>k. ''b'' @ natToString ((p + k) mod n)) (set [0..<r])"
  proof (rule inj_onI)
    fix x y assume xy: "x \<in> set [0..<r]" "y \<in> set [0..<r]"
      and eq: "''b'' @ natToString ((p + x) mod n) = ''b'' @ natToString ((p + y) mod n)"
    from eq have "(p + x) mod n = (p + y) mod n" by (simp add: natToString_inj)
    moreover from xy assms have "x < n" "y < n" by simp_all
    ultimately show "x = y" by (rule mod_shift_inj[rotated 2])
  qed
  then show ?thesis by (simp add: distinct_map)
qed


lemma clamp_rf:
  "jsMax 1 (jsMin rf (Some bc)) = Some (max 1 (min rf bc))"
  by (simp add: jsMax_def jsMin_def)

lemma mkTopic_ok:
  assumes "1 \<le> bc" and "bc < 2 ^ 32" and "toLength (cfg_partitions t) < 2 ^ 32"
  shows "mkTopic (Some bc) (map mkBroker [0..<nat bc]) t idx =
           Inr \<lparr>tname = cfg_name t,
                partitions = map (\<lambda>p.
                    \<lparr>pid = int p, topic = cfg_name t,
                     leader = (case map (\<lambda>k. ''b'' @ natToString ((p + k) mod nat bc))
                                        [0..<nat (max 1 (min (replicationFactor t) bc))] of
                                 [] \<Rightarrow> None | r # _ \<Rightarrow> Some r),
                     replicas = map (\<lambda>k. ''b'' @ natToString ((p + k) mod nat bc))
                                    [0..<nat (max 1 (min (replicationFactor t) bc))],
                     offline = None, endOffset = 0\<rparr>) [0..<nat (toLength (cfg_partitions t))],
                color = PALETTE ! (idx mod length PALETTE)\<rparr>"
proof -
  have rf: "0 \<le> max 1 (min (replicationFactor t) bc)"
    "max 1 (min (replicationFactor t) bc) < 2 ^ 32"
    using assms(1,2) by simp_all
  show ?thesis
    unfolding mkTopic_def Let_def clamp_rf
    by (simp add: arrayFrom_Inr[OF assms(3) mkPartition_ok[OF assms(1) rf]])
qed

lemma buildCluster_ok:
  assumes "1 \<le> bc" and "bc < 2 ^ 32"
    and "\<forall>cfg\<in>set cfgs. toLength (cfg_partitions cfg) < 2 ^ 32"
  shows "buildCluster (Some bc) cfgs =
           Inr \<lparr>brokers = map mkBroker [0..<nat bc],
                topics = map (\<lambda>(idx, t).
                  \<lparr>tname = cfg_name t,
                   partitions = map (\<lambda>p.
                    \<lparr>pid = int p, topic = cfg_name t,
                     leader = (case map (\<lambda>k. ''b'' @ natToString ((p + k) mod nat bc))
                                        [0..<nat (max 1 (min (replicationFactor t) bc))] of
                                 [] \<Rightarrow> None | r # _ \<Rightarrow> Some r),
                     replicas = map (\<lambda>k. ''b'' @ natToString ((p + k) mod nat bc))
                                    [0..<nat (max 1 (min (replicationFactor t) bc))],
                     offline = None, endOffset = 0\<rparr>) [0..<nat (toLength (cfg_partitions t))],
                   color = PALETTE ! (idx mod length PALETTE)\<rparr>) (enumerate 0 cfgs)\<rparr>"
proof -
  have bs: "mkBrokers (Some bc) = Inr (map mkBroker [0..<nat bc])"
    using assms(1,2) by (simp add: mkBrokers_ok)
  have "mapE (\<lambda>(idx, t). mkTopic (Some bc) (map mkBroker [0..<nat bc]) t idx) (enumerate 0 cfgs) =
        Inr (map (\<lambda>(idx, t).
                  \<lparr>tname = cfg_name t,
                   partitions = map (\<lambda>p.
                    \<lparr>pid = int p, topic = cfg_name t,
                     leader = (case map (\<lambda>k. ''b'' @ natToString ((p + k) mod nat bc))
                                        [0..<nat (max 1 (min (replicationFactor t) bc))] of
                                 [] \<Rightarrow> None | r # _ \<Rightarrow> Some r),
                     replicas = map (\<lambda>k. ''b'' @ natToString ((p + k) mod nat bc))
                                    [0..<nat (max 1 (min (replicationFactor t) bc))],
                     offline = None, endOffset = 0\<rparr>) [0..<nat (toLength (cfg_partitions t))],
                   color = PALETTE ! (idx mod length PALETTE)\<rparr>) (enumerate 0 cfgs))"
  proof (rule mapE_Inr)
    fix x assume x: "x \<in> set (enumerate 0 cfgs)"
    obtain idx t where xe: "x = (idx, t)" by (cases x)
    with x have "t \<in> set cfgs" by (auto simp: in_set_enumerate_eq)
    with assms(3) have "toLength (cfg_partitions t) < 2 ^ 32" by blast
    from mkTopic_ok[OF assms(1,2) this]
    show "(case x of (idx, t) \<Rightarrow> mkTopic (Some bc) (map mkBroker [0..<nat bc]) t idx) =
          Inr (case x of (idx, t) \<Rightarrow>
                  \<lparr>tname = cfg_name t,
                   partitions = map (\<lambda>p.
                    \<lparr>pid = int p, topic = cfg_name t,
                     leader = (case map (\<lambda>k. ''b'' @ natToString ((p + k) mod nat bc))
                                        [0..<nat (max 1 (min (replicationFactor t) bc))] of
                                 [] \<Rightarrow> None | r # _ \<Rightarrow> Some r),
                     replicas = map (\<lambda>k. ''b'' @ natToString ((p + k) mod nat bc))
                                    [0..<nat (max 1 (min (replicationFactor t) bc))],
                     offline = None, endOffset = 0\<rparr>) [0..<nat (toLength (cfg_partitions t))],
                   color = PALETTE ! (idx mod length PALETTE)\<rparr>)"
      by (simp add: xe)
  qed
  then show ?thesis by (simp add: buildCluster_def bs)
qed

lemma built_small:
  assumes "1 \<le> bc" and "buildCluster (Some bc) cfgs = Inr c"
  shows "bc < 2 ^ 32" and "\<forall>cfg\<in>set cfgs. toLength (cfg_partitions cfg) < 2 ^ 32"
proof -
  from assms(2) obtain bs ts where bs: "mkBrokers (Some bc) = Inr bs"
    and ts: "mapE (\<lambda>(idx, t). mkTopic (Some bc) bs t idx) (enumerate 0 cfgs) = Inr ts"
    by (auto simp: buildCluster_def split: sum.splits)
  from bs have "toLength (Some bc) < 2 ^ 32"
    unfolding mkBrokers_def by (rule arrayFrom_small)
  with toLength_large[of bc] show "bc < 2 ^ 32" by (cases "bc < 2 ^ 32") simp_all
  show "\<forall>cfg\<in>set cfgs. toLength (cfg_partitions cfg) < 2 ^ 32"
  proof
    fix cfg assume "cfg \<in> set cfgs"
    then obtain i where i: "i < length cfgs" and cfg: "cfg = cfgs ! i"
      by (auto simp: in_set_conv_nth)
    then have "(i, cfg) \<in> set (enumerate 0 cfgs)" by (simp add: in_set_enumerate_eq)
    from mapE_Inr_all[OF ts this] obtain tp where "mkTopic (Some bc) bs cfg i = Inr tp" by auto
    then obtain parts where
      "arrayFrom (cfg_partitions cfg)
         (mkPartition (Some bc) bs (cfg_name cfg) (jsMax 1 (jsMin (replicationFactor cfg) (Some bc))))
       = Inr parts"
      by (auto simp: mkTopic_def Let_def split: sum.splits)
    then show "toLength (cfg_partitions cfg) < 2 ^ 32" by (rule arrayFrom_small)
  qed
qed

lemma built_shape:
  assumes "1 \<le> bc" and "buildCluster (Some bc) cfgs = Inr c"
  shows "brokers c = map mkBroker [0..<nat bc]" and "length (topics c) = length cfgs"
    and "i < length cfgs \<Longrightarrow> tname (topics c ! i) = cfg_name (cfgs ! i)"
    and "i < length cfgs \<Longrightarrow>
           length (partitions (topics c ! i)) = nat (toLength (cfg_partitions (cfgs ! i)))"
  using assms(2) unfolding buildCluster_ok[OF assms(1) built_small[OF assms]]
  by (auto simp: nth_enumerate_eq)

lemma built_partition:
  assumes "1 \<le> bc" and "buildCluster (Some bc) cfgs = Inr c"
    and "i < length cfgs" and "p < nat (toLength (cfg_partitions (cfgs ! i)))"
  shows "partitions (topics c ! i) ! p =
           \<lparr>pid = int p, topic = cfg_name (cfgs ! i),
            leader = Some (''b'' @ natToString (p mod nat bc)),
            replicas = map (\<lambda>k. ''b'' @ natToString ((p + k) mod nat bc))
                           [0..<nat (max 1 (min (replicationFactor (cfgs ! i)) bc))],
            offline = None, endOffset = 0\<rparr>"
proof -
  have "0 < nat (max 1 (min (replicationFactor (cfgs ! i)) bc))" by simp
  then have "[0..<nat (max 1 (min (replicationFactor (cfgs ! i)) bc))]
               = 0 # [Suc 0..<nat (max 1 (min (replicationFactor (cfgs ! i)) bc))]"
    by (rule upt_conv_Cons)
  then have "(case map (\<lambda>k. ''b'' @ natToString ((p + k) mod nat bc))
                    [0..<nat (max 1 (min (replicationFactor (cfgs ! i)) bc))] of
               [] \<Rightarrow> None | r # _ \<Rightarrow> Some r) = Some (''b'' @ natToString (p mod nat bc))"
    by simp
  with assms(2-4) show ?thesis
    unfolding buildCluster_ok[OF assms(1) built_small[OF assms(1,2)]]
    by (auto simp: nth_enumerate_eq)
qed

text \<open>
  Claim C2. Take a broker count of at least 1 and a list of topic configurations.
  \<open>buildCluster\<close> returns a cluster exactly when the broker count and the partition count
  of every configuration, as \<open>Array.from\<close> reads it, are below \<open>2^32\<close>. The cluster it
  returns has one topic per configuration; the topic of a configuration has one
  partition for each index \<open>p\<close> below the configured partition count, and that partition
  has index \<open>p\<close>, a replica list whose length is the replication factor clamped to the
  range from 1 to the broker count, pairwise distinct replica ids, the first replica as
  leader, end offset 0, and as first replica the id of the broker at position
  \<open>p mod brokerCount\<close>.
\<close>

theorem buildCluster_replica_integrity:
  assumes "1 \<le> brokerCount"
  shows "((\<exists>c. buildCluster (Some brokerCount) cfgs = Inr c) \<longleftrightarrow>
            brokerCount < 2 ^ 32 \<and> (\<forall>cfg\<in>set cfgs. toLength (cfg_partitions cfg) < 2 ^ 32))
       \<and> (\<forall>c. buildCluster (Some brokerCount) cfgs = Inr c \<longrightarrow>
           length (topics c) = length cfgs \<and>
           (\<forall>i<length cfgs.
              length (partitions (topics c ! i)) = nat (toLength (cfg_partitions (cfgs ! i))) \<and>
              (\<forall>p<nat (toLength (cfg_partitions (cfgs ! i))).
                 pid (partitions (topics c ! i) ! p) = int p \<and>
                 int (length (replicas (partitions (topics c ! i) ! p))) =
                   (if replicationFactor (cfgs ! i) < 1 then 1
                    else if brokerCount < replicationFactor (cfgs ! i) then brokerCount
                    else replicationFactor (cfgs ! i)) \<and>
                 distinct (replicas (partitions (topics c ! i) ! p)) \<and>
                 leader (partitions (topics c ! i) ! p) =
                   Some (replicas (partitions (topics c ! i) ! p) ! 0) \<and>
                 endOffset (partitions (topics c ! i) ! p) = 0 \<and>
                 replicas (partitions (topics c ! i) ! p) ! 0 =
                   bid (brokers c ! (p mod nat brokerCount)))))"
proof -
  have returns: "(\<exists>c. buildCluster (Some brokerCount) cfgs = Inr c) \<longleftrightarrow>
            brokerCount < 2 ^ 32 \<and> (\<forall>cfg\<in>set cfgs. toLength (cfg_partitions cfg) < 2 ^ 32)"
    using built_small[OF assms, of cfgs] buildCluster_ok[OF assms, of cfgs] by blast
  have "length (topics c) = length cfgs \<and>
           (\<forall>i<length cfgs.
              length (partitions (topics c ! i)) = nat (toLength (cfg_partitions (cfgs ! i))) \<and>
              (\<forall>p<nat (toLength (cfg_partitions (cfgs ! i))).
                 pid (partitions (topics c ! i) ! p) = int p \<and>
                 int (length (replicas (partitions (topics c ! i) ! p))) =
                   (if replicationFactor (cfgs ! i) < 1 then 1
                    else if brokerCount < replicationFactor (cfgs ! i) then brokerCount
                    else replicationFactor (cfgs ! i)) \<and>
                 distinct (replicas (partitions (topics c ! i) ! p)) \<and>
                 leader (partitions (topics c ! i) ! p) =
                   Some (replicas (partitions (topics c ! i) ! p) ! 0) \<and>
                 endOffset (partitions (topics c ! i) ! p) = 0 \<and>
                 replicas (partitions (topics c ! i) ! p) ! 0 =
                   bid (brokers c ! (p mod nat brokerCount))))"
    if c: "buildCluster (Some brokerCount) cfgs = Inr c" for c
  proof -
    note shape = built_shape[OF assms c]
    have "pid (partitions (topics c ! i) ! p) = int p \<and>
        int (length (replicas (partitions (topics c ! i) ! p))) =
                   (if replicationFactor (cfgs ! i) < 1 then 1
                    else if brokerCount < replicationFactor (cfgs ! i) then brokerCount
                    else replicationFactor (cfgs ! i)) \<and>
        distinct (replicas (partitions (topics c ! i) ! p)) \<and>
        leader (partitions (topics c ! i) ! p) =
                   Some (replicas (partitions (topics c ! i) ! p) ! 0) \<and>
        endOffset (partitions (topics c ! i) ! p) = 0 \<and>
        replicas (partitions (topics c ! i) ! p) ! 0 = bid (brokers c ! (p mod nat brokerCount))"
      if i: "i < length cfgs" and p: "p < nat (toLength (cfg_partitions (cfgs ! i)))" for i p
    proof -
      let ?rf = "nat (max 1 (min (replicationFactor (cfgs ! i)) brokerCount))"
      note part = built_partition[OF assms c i p]
      have rf: "0 < ?rf" "?rf \<le> nat brokerCount" using assms by simp_all
      have len: "int (length (replicas (partitions (topics c ! i) ! p))) =
                   (if replicationFactor (cfgs ! i) < 1 then 1
                    else if brokerCount < replicationFactor (cfgs ! i) then brokerCount
                    else replicationFactor (cfgs ! i))"
        using assms by (simp add: part)
      have dist: "distinct (replicas (partitions (topics c ! i) ! p))"
        by (simp only: part Partition.simps distinct_replica_ids[OF rf(2)])
      have hd: "replicas (partitions (topics c ! i) ! p) ! 0 = ''b'' @ natToString (p mod nat brokerCount)"
        using rf(1) by (simp add: part)
      have "p mod nat brokerCount < nat brokerCount" using assms by simp
      then have b: "bid (brokers c ! (p mod nat brokerCount)) = ''b'' @ natToString (p mod nat brokerCount)"
        by (simp add: shape(1) mkBroker_def)
      show ?thesis using len dist hd b by (simp add: part)
    qed
    with shape(2,4) show ?thesis by blast
  qed
  with returns show ?thesis by blast
qed

text \<open>
  The theorem at three brokers and \<open>exConfig\<close>, for partition 2 of topic \<open>t\<close>: two
  distinct replicas \<open>b2\<close>, \<open>b0\<close>, the first of them the leader and the broker at position
  \<open>2 mod 3\<close>.
\<close>

theorem buildCluster_replica_integrity_witness:
  "(1 :: int) \<le> 3
   \<and> buildCluster (Some 3) exConfig = Inr exBuilt
   \<and> length (replicas (partitions (topics exBuilt ! 0) ! 2)) = 2
   \<and> distinct (replicas (partitions (topics exBuilt ! 0) ! 2))
   \<and> leader (partitions (topics exBuilt ! 0) ! 2)
       = Some (replicas (partitions (topics exBuilt ! 0) ! 2) ! 0)
   \<and> replicas (partitions (topics exBuilt ! 0) ! 2) ! 0 = bid (brokers exBuilt ! 2)
   \<and> endOffset (partitions (topics exBuilt ! 0) ! 2) = 0"
proof -
  have b: "buildCluster (Some 3) exConfig = Inr exBuilt" by code_simp
  have i: "0 < length exConfig" and p: "2 < nat (toLength (cfg_partitions (exConfig ! 0)))"
    and rf: "replicationFactor (exConfig ! 0) = 2"
    by (simp_all add: exConfig_def toLength_def)
  from buildCluster_replica_integrity[of 3 exConfig] b i p
  have "int (length (replicas (partitions (topics exBuilt ! 0) ! 2))) =
                   (if replicationFactor (exConfig ! 0) < 1 then 1
                    else if 3 < replicationFactor (exConfig ! 0) then 3
                    else replicationFactor (exConfig ! 0)) \<and>
        distinct (replicas (partitions (topics exBuilt ! 0) ! 2)) \<and>
        leader (partitions (topics exBuilt ! 0) ! 2) =
                   Some (replicas (partitions (topics exBuilt ! 0) ! 2) ! 0) \<and>
        endOffset (partitions (topics exBuilt ! 0) ! 2) = 0 \<and>
        replicas (partitions (topics exBuilt ! 0) ! 2) ! 0 = bid (brokers exBuilt ! (2 mod nat 3))"
    by auto
  with b rf show ?thesis by simp
qed

section \<open>Properties of produce\<close>

lemma cloneCluster_id: "cloneCluster c = c"
proof -
  have "(\<lambda>p :: Partition. p\<lparr>replicas := map (\<lambda>r. r) (replicas p)\<rparr>) = (\<lambda>p. p)"
    by (rule ext) simp
  then have "(\<lambda>t :: Topic. t\<lparr>partitions :=
               map (\<lambda>p. p\<lparr>replicas := map (\<lambda>r. r) (replicas p)\<rparr>) (partitions t)\<rparr>) = (\<lambda>t. t)"
    by simp
  then show ?thesis by (simp add: cloneCluster_def)
qed

lemma findIndex_None: "findIndex P xs = None \<longleftrightarrow> (\<forall>x\<in>set xs. \<not> P x)"
  by (induction xs) auto



lemma jsInc_exact: "\<bar>n + 1\<bar> < 2 ^ 53 \<Longrightarrow> jsInc n = n + 1"
  by (simp add: jsInc_def nearestDouble_def excessBits.simps[of "\<bar>n + 1\<bar>"])

lemma jsInc_limit: "jsInc (2 ^ 53) = 2 ^ 53"
  by code_simp

lemma hashKeyToPartition_range:
  assumes "1 \<le> n"
  shows "\<exists>k. hashKeyToPartition key n = Some k \<and> 0 \<le> k \<and> k < n"
  using assms by (simp add: hashKeyToPartition_def jsRem_nonneg)

lemma random_index_range:
  fixes rnd :: real
  assumes "0 \<le> rnd" "rnd < 1" "1 \<le> n"
  shows "0 \<le> \<lfloor>rnd * of_int n\<rfloor> \<and> \<lfloor>rnd * of_int n\<rfloor> < n"
proof -
  have "0 \<le> rnd * of_int n" using assms by simp
  moreover have "rnd * of_int n < of_int n" using assms by simp
  ultimately show ?thesis by (simp add: floor_less_iff)
qed

lemma produce_result:
  assumes rnd: "0 \<le> rnd" "rnd < 1"
    and ti: "findIndex (\<lambda>x. tname x = name) (topics c) = Some ti"
    and ne: "partitions (topics c ! ti) \<noteq> []"
  shows "\<exists>k<length (partitions (topics c ! ti)).
           produce c name key rnd =
             Inr (c\<lparr>topics := (topics c)
                    [ti := (topics c ! ti)\<lparr>partitions := (partitions (topics c ! ti))
                       [k := (partitions (topics c ! ti) ! k)
                          \<lparr>endOffset := jsInc (endOffset (partitions (topics c ! ti) ! k))\<rparr>]\<rparr>]\<rparr>)"
proof -
  let ?ps = "partitions (topics c ! ti)"
  let ?n = "int (length ?ps)"
  let ?pidx = "if key \<noteq> [] then hashKeyToPartition key ?n else Some \<lfloor>rnd * of_int ?n\<rfloor>"
  from ne have n: "1 \<le> ?n" by (cases ?ps) simp_all
  have "\<exists>k. ?pidx = Some k \<and> 0 \<le> k \<and> k < ?n"
    using hashKeyToPartition_range[OF n, of key] random_index_range[OF rnd n] by auto
  then obtain k where k: "?pidx = Some k" "0 \<le> k" "k < ?n" by blast
  then have "nat k < length ?ps" by simp
  moreover have "produce c name key rnd =
             Inr (c\<lparr>topics := (topics c)
                    [ti := (topics c ! ti)\<lparr>partitions := ?ps
                       [nat k := (?ps ! nat k)\<lparr>endOffset := jsInc (endOffset (?ps ! nat k))\<rparr>]\<rparr>]\<rparr>)"
    using k ti unfolding produce_def cloneCluster_id Let_def by simp
  ultimately show ?thesis by blast
qed




section \<open>The clusters that the component holds\<close>












section \<open>Defects\<close>

lemma sum_case_Inr:
  "(case x of Inl e \<Rightarrow> False | Inr y \<Rightarrow> P y) \<Longrightarrow> \<exists>y. x = Inr y \<and> P y"
  by (cases x) simp_all

lemma sum_case_Inr2:
  "(case x of Inl e \<Rightarrow> False
    | Inr y \<Rightarrow> (case f y of Inl e \<Rightarrow> False | Inr z \<Rightarrow> P y z))
   \<Longrightarrow> \<exists>y z. x = Inr y \<and> f y = Inr z \<and> P y z"
proof -
  assume a: "case x of Inl e \<Rightarrow> False
             | Inr y \<Rightarrow> (case f y of Inl e \<Rightarrow> False | Inr z \<Rightarrow> P y z)"
  from sum_case_Inr[OF a] obtain y where y: "x = Inr y"
    and b: "case f y of Inl e \<Rightarrow> False | Inr z \<Rightarrow> P y z"
    by blast
  from sum_case_Inr[OF b] obtain z where "f y = Inr z" "P y z" by blast
  with y show ?thesis by blast
qed

text \<open>
  Claim C5 fails in a state that the component reaches. After ``add topic'', ``remove''
  on the first topic and ``add topic'' again, \<open>topicsSpec\<close> holds two topics named
  \<open>topic_3\<close>: \<open>addTopic\<close> names a topic after the length of the list, without the check
  for duplicate names that \<open>updateTopicSpec\<close> makes. The cluster built for them has 24
  partitions and only 18 partition keys. With the four consumers of \<open>fourGroups\<close>, the
  partition at position 12 of the enumeration, partition 0 of the first \<open>topic_3\<close>, is
  not assigned to \<open>members[12 mod 4]\<close>, which is \<open>c1\<close>: its key \<open>topic_3:p0\<close> is also the
  key of the partition at position 18, and the later assignment, to \<open>c3\<close>, overwrites
  the earlier one.
\<close>

theorem rebalanceGroup_duplicate_names:
  "\<exists>c. buildCluster (Some 3) dupSpec = Inr c
     \<and> map tname (topics c) = [''purchases'', ''trucks_gps'', ''topic_3'', ''topic_3'']
     \<and> map cid (members (rebalanceAll fourGroups c ! 0)) = [''c1'', ''c2'', ''c3'', ''c4'']
     \<and> length (allParts (topics c)) = 24
     \<and> length (remdups (allParts (topics c))) = 18
     \<and> allParts (topics c) ! 12 = ''topic_3:p0''
     \<and> allParts (topics c) ! 18 = ''topic_3:p0''
     \<and> cid (members (rebalanceAll fourGroups c ! 0) ! (12 mod 4)) = ''c1''
     \<and> assignments (rebalanceAll fourGroups c ! 0) ''topic_3:p0'' = Some ''c3''"
proof -
  have "case buildCluster (Some 3) dupSpec of
          Inl e \<Rightarrow> False
        | Inr c \<Rightarrow>
            map tname (topics c) = [''purchases'', ''trucks_gps'', ''topic_3'', ''topic_3'']
          \<and> map cid (members (rebalanceAll fourGroups c ! 0)) = [''c1'', ''c2'', ''c3'', ''c4'']
          \<and> length (allParts (topics c)) = 24
          \<and> length (remdups (allParts (topics c))) = 18
          \<and> allParts (topics c) ! 12 = ''topic_3:p0''
          \<and> allParts (topics c) ! 18 = ''topic_3:p0''
          \<and> cid (members (rebalanceAll fourGroups c ! 0) ! (12 mod 4)) = ''c1''
          \<and> assignments (rebalanceAll fourGroups c ! 0) ''topic_3:p0'' = Some ''c3''"
    by code_simp
  then show ?thesis by (rule sum_case_Inr)
qed

text \<open>
  Claim C6 fails in the same state. A record with the key \<open>user-42\<close> produced to
  \<open>topic_3\<close> goes to partition 4 of the first topic of that name, whose end offset
  becomes 1; partition 4 of the second stays at end offset 0. For group \<open>g1\<close> both
  partitions have the key \<open>topic_3:p4\<close>, with an assigned consumer and no committed
  offset. One \<open>consumeOnce\<close> raises the committed offset of the key to 1: the committed
  offset of partition 4 of the second topic changes although it is not below the end
  offset of that partition, and ends above it.
\<close>

theorem consumeOnce_duplicate_names:
  "\<exists>c c'. buildCluster (Some 3) dupSpec = Inr c
     \<and> produce c ''topic_3'' userKey 0 = Inr c'
     \<and> map (\<lambda>t. (tname t, map endOffset (partitions t))) (topics c')
         = [(''purchases'', [0, 0, 0, 0, 0, 0]), (''trucks_gps'', [0, 0, 0, 0, 0, 0]),
            (''topic_3'', [0, 0, 0, 0, 1, 0]), (''topic_3'', [0, 0, 0, 0, 0, 0])]
     \<and> partitionKey (tname (topics c' ! 3)) (pid (partitions (topics c' ! 3) ! 4)) = ''topic_3:p4''
     \<and> endOffset (partitions (topics c' ! 3) ! 4) = 0
     \<and> gid (rebalanceAll initialGroups c' ! 0) = ''g1''
     \<and> assignments (rebalanceAll initialGroups c' ! 0) ''topic_3:p4'' = Some ''c1''
     \<and> committedOffset (rebalanceAll initialGroups c' ! 0) ''topic_3:p4'' = 0
     \<and> committedOffset (consumeOnce (rebalanceAll initialGroups c') c' ''g1'' ! 0) ''topic_3:p4'' = 1"
proof -
  have "case buildCluster (Some 3) dupSpec of
          Inl e \<Rightarrow> False
        | Inr c \<Rightarrow>
            (case produce c ''topic_3'' userKey 0 of
               Inl e \<Rightarrow> False
             | Inr c' \<Rightarrow>
                 map (\<lambda>t. (tname t, map endOffset (partitions t))) (topics c')
                   = [(''purchases'', [0, 0, 0, 0, 0, 0]), (''trucks_gps'', [0, 0, 0, 0, 0, 0]),
                      (''topic_3'', [0, 0, 0, 0, 1, 0]), (''topic_3'', [0, 0, 0, 0, 0, 0])]
               \<and> partitionKey (tname (topics c' ! 3)) (pid (partitions (topics c' ! 3) ! 4))
                   = ''topic_3:p4''
               \<and> endOffset (partitions (topics c' ! 3) ! 4) = 0
               \<and> gid (rebalanceAll initialGroups c' ! 0) = ''g1''
               \<and> assignments (rebalanceAll initialGroups c' ! 0) ''topic_3:p4'' = Some ''c1''
               \<and> committedOffset (rebalanceAll initialGroups c' ! 0) ''topic_3:p4'' = 0
               \<and> committedOffset (consumeOnce (rebalanceAll initialGroups c') c' ''g1'' ! 0)
                     ''topic_3:p4'' = 1)"
    by code_simp
  then show ?thesis by (rule sum_case_Inr2)
qed

text \<open>
  Claim C7 fails in a state that the component reaches. When the text \<open>.5\<close> is entered
  in the partitions field of the topic \<open>logs\<close>, \<open>parseInt\<close> returns \<open>NaN\<close>, which
  \<open>Math.max(1, .)\<close> does not clamp: \<open>topicsSpec\<close> holds a partition count \<open>NaN\<close> and
  \<open>buildCluster\<close> builds the topic with no partition. The topic exists, and \<open>produce\<close>
  to it increments no end offset: with a key and without one, the partition read is
  \<open>undefined\<close> and \<open>part.endOffset += 1\<close> throws a \<open>TypeError\<close>.
\<close>

theorem produce_no_partition:
  "\<exists>spec c. nanSpec = Inr spec
     \<and> buildCluster (Some 3) spec = Inr c
     \<and> map cfg_partitions spec = [None, Some 6, Some 6]
     \<and> tname (topics c ! 0) = ''logs''
     \<and> partitions (topics c ! 0) = []
     \<and> produce c ''logs'' userKey 0 = Inl TypeError
     \<and> produce c ''logs'' [] 0 = Inl TypeError"
proof -
  have "case nanSpec of
          Inl e \<Rightarrow> False
        | Inr spec \<Rightarrow>
            (case buildCluster (Some 3) spec of
               Inl e \<Rightarrow> False
             | Inr c \<Rightarrow>
                 map cfg_partitions spec = [None, Some 6, Some 6]
               \<and> tname (topics c ! 0) = ''logs''
               \<and> partitions (topics c ! 0) = []
               \<and> produce c ''logs'' userKey 0 = Inl TypeError
               \<and> produce c ''logs'' [] 0 = Inl TypeError)"
    by code_simp
  then show ?thesis by (rule sum_case_Inr2)
qed

text \<open>
  Claim C8 fails in states that the component reaches. \<open>buildCluster\<close> clamps the
  replication factor and not the partition count, which it leaves to the handler of the
  field. With the partition count \<open>NaN\<close> of \<open>nanSpec\<close> the built topic has no partition;
  with the partition count \<open>4294967296\<close> of \<open>hugeSpec\<close>, which the field accepts since it
  has no upper bound, \<open>Array.from\<close> throws a \<open>RangeError\<close> and nothing is built. The
  broker field lets \<open>NaN\<close> through in the same way, and for the broker count \<open>NaN\<close> every
  partition is built with an empty replica list.
\<close>

theorem buildCluster_unclamped:
  "(\<exists>spec c. nanSpec = Inr spec \<and> buildCluster (Some 3) spec = Inr c
      \<and> map cfg_partitions spec = [None, Some 6, Some 6] \<and> partitions (topics c ! 0) = [])
   \<and> (\<exists>spec. hugeSpec = Inr spec
        \<and> map cfg_partitions spec = [Some 4294967296, Some 6, Some 6]
        \<and> buildCluster (Some 3) spec = Inl RangeError)
   \<and> setBrokerCount None = None
   \<and> (\<exists>c. buildCluster (setBrokerCount None) initialSpec = Inr c
        \<and> map (\<lambda>t. map replicas (partitions t)) (topics c)
            = [[[], [], [], [], [], []], [[], [], [], [], [], []], [[], [], [], [], [], []]])"
proof -
  have a: "case nanSpec of
          Inl e \<Rightarrow> False
        | Inr spec \<Rightarrow>
            (case buildCluster (Some 3) spec of
               Inl e \<Rightarrow> False
             | Inr c \<Rightarrow>
                 map cfg_partitions spec = [None, Some 6, Some 6]
               \<and> partitions (topics c ! 0) = [])"
    by code_simp
  have b: "case hugeSpec of
          Inl e \<Rightarrow> False
        | Inr spec \<Rightarrow>
            map cfg_partitions spec = [Some 4294967296, Some 6, Some 6]
          \<and> buildCluster (Some 3) spec = Inl RangeError"
    by code_simp
  have c: "setBrokerCount None = None"
    by code_simp
  have d: "case buildCluster (setBrokerCount None) initialSpec of
          Inl e \<Rightarrow> False
        | Inr c \<Rightarrow>
            map (\<lambda>t. map replicas (partitions t)) (topics c)
              = [[[], [], [], [], [], []], [[], [], [], [], [], []], [[], [], [], [], [], []]]"
    by code_simp
  from sum_case_Inr2[OF a] sum_case_Inr[OF b] c sum_case_Inr[OF d]
  show ?thesis by (intro conjI)
qed

end
